theory Spec2Isabelle
  imports Main
begin

section \<open>Code Way command-line tool: a model of \<^verbatim>\<open>codeway.py\<close>\<close>

text \<open>
  The script reads a credential from the environment, a framework document and the code
  files named on the command line, sends one request to a text-generation service and
  prints the answer. Everything it does is an effect, so the model makes the outside
  world a value (\<open>world\<close>) and lets every function return the list of effects it
  performed (\<open>trace\<close>) next to its result. \<^verbatim>\<open>sys.exit(n)\<close> is the value \<open>Inl n\<close> of a
  function that may leave the program, and the exit status returned by \<open>main\<close>.

  A Python string is modelled by its UTF-8 encoding, a \<open>string\<close>: one character of
  the Python string is one byte, or a leading byte followed by continuation bytes. The
  warning sign that starts every diagnostic is the one non-ASCII text of the script.
  \<^verbatim>\<open>print(s)\<close> is recorded as the event carrying \<open>s\<close> (the newline that
  \<^verbatim>\<open>print\<close> adds is left implicit), on the stream it is sent to.
\<close>

subsection \<open>Strings\<close>

definition warn :: string where
  "warn = [CHR 0xE2, CHR 0x9A, CHR 0xA0, CHR 0xEF, CHR 0xB8, CHR 0x8F]"

definition nl :: string where
  "nl = [CHR 0x0A]"

text \<open>\<^verbatim>\<open>str(n)\<close> for a number: decimal digits, a minus sign for a negative one.\<close>

definition digit_char :: "nat \<Rightarrow> char" where
  "digit_char d = ''0123456789'' ! d"

fun show_nat :: "nat \<Rightarrow> string" where
  "show_nat n = (if n < 10 then [digit_char n] else show_nat (n div 10) @ [digit_char (n mod 10)])"

declare show_nat.simps [simp del]

definition show_int :: "int \<Rightarrow> string" where
  "show_int i = (if i < 0 then ''-'' @ show_nat (nat (- i)) else show_nat (nat i))"

text \<open>
  \<^verbatim>\<open>s.lower()\<close>. On a text of ASCII characters only, the letters A to Z are mapped
  to a to z and every other character is kept. On any other text Python applies the case
  mapping of Unicode, whose tables are no part of the script: there the result is the
  parameter \<open>unicode_lower\<close> (on UTF-8 encodings), about which nothing is assumed.
\<close>

definition is_ascii :: "char \<Rightarrow> bool" where
  "is_ascii c = ((of_char c :: nat) < 128)"

definition lower_char :: "char \<Rightarrow> char" where
  "lower_char c =
     (if 65 \<le> (of_char c :: nat) \<and> (of_char c :: nat) \<le> 90 then char_of (of_char c + 32 :: nat) else c)"

definition lower :: "(string \<Rightarrow> string) \<Rightarrow> string \<Rightarrow> string" where
  "lower unicode_lower s = (if list_all is_ascii s then map lower_char s else unicode_lower s)"

text \<open>
  \<^verbatim>\<open>s[:n]\<close>: the first \<open>n\<close> characters of the Python string. In the encoding a
  character begins at every byte that is not a continuation byte (\<^verbatim>\<open>0x80\<close> to
  \<^verbatim>\<open>0xBF\<close>), and its continuation bytes stay with it.
\<close>

definition is_continuation :: "char \<Rightarrow> bool" where
  "is_continuation c = (128 \<le> (of_char c :: nat) \<and> (of_char c :: nat) < 192)"

fun take_chars :: "nat \<Rightarrow> string \<Rightarrow> string" where
  "take_chars n [] = []"
| "take_chars n (c # cs) =
     (if is_continuation c then c # take_chars n cs
      else (case n of 0 \<Rightarrow> [] | Suc m \<Rightarrow> c # take_chars m cs))"

text \<open>\<^verbatim>\<open>needle in hay\<close> for strings: \<open>needle\<close> occurs as a contiguous part of \<open>hay\<close>.\<close>

fun starts_with :: "string \<Rightarrow> string \<Rightarrow> bool" where
  "starts_with [] hay = True"
| "starts_with (c # cs) [] = False"
| "starts_with (c # cs) (h # hs) = (c = h \<and> starts_with cs hs)"

fun str_in :: "string \<Rightarrow> string \<Rightarrow> bool" where
  "str_in needle [] = (needle = [])"
| "str_in needle (h # hs) = (starts_with needle (h # hs) \<or> str_in needle hs)"

text \<open>\<^verbatim>\<open>sep.join(parts)\<close>.\<close>

fun join :: "string \<Rightarrow> string list \<Rightarrow> string" where
  "join sep [] = []"
| "join sep [s] = s"
| "join sep (s # t # ts) = s @ sep @ join sep (t # ts)"

text \<open>
  \<^verbatim>\<open>os.path.basename\<close> and \<^verbatim>\<open>os.path.join\<close> as \<^verbatim>\<open>posixpath\<close> defines them: the
  base name is what follows the last slash; joining a relative component puts one slash
  between the parts unless the first is empty or already ends with one.
\<close>

definition basename :: "string \<Rightarrow> string" where
  "basename p = rev (takeWhile (\<lambda>c. c \<noteq> CHR ''/'') (rev p))"

definition path_join :: "string \<Rightarrow> string \<Rightarrow> string" where
  "path_join a b = (if a = [] \<or> last a = CHR ''/'' then a @ b else a @ ''/'' @ b)"

text \<open>Python's \<^verbatim>\<open>not x\<close> for a value that is \<^verbatim>\<open>None\<close> or a string.\<close>

definition falsy :: "string option \<Rightarrow> bool" where
  "falsy x = (case x of None \<Rightarrow> True | Some s \<Rightarrow> s = [])"

subsection \<open>The outside world and the effects of a run\<close>

text \<open>
  What \<^verbatim>\<open>open(filepath).read()\<close> does: it returns the text, raises
  \<^verbatim>\<open>FileNotFoundError\<close>, or raises another exception whose text is given.
\<close>

datatype read_result = Content string | FileNotFound | ReadFailure string

text \<open>
  A response of the service: \<^verbatim>\<open>message.content\<close> (\<open>msg_content\<close>) is a list of
  typed blocks or some other value (\<open>NotAList\<close>); the attribute \<^verbatim>\<open>message.text\<close>
  (\<open>msg_text\<close>) is absent, or holds \<^verbatim>\<open>None\<close>, or holds a string; \<open>msg_repr\<close> is
  \<^verbatim>\<open>str(message)\<close>. Of a block the code reads \<^verbatim>\<open>block.type\<close>, and
  \<^verbatim>\<open>block.text\<close> when the type is \<^verbatim>\<open>'text'\<close>. A value that is neither
  \<^verbatim>\<open>None\<close> nor a string is only handed on and printed by the code, so it is
  represented by the string printed for it; a block text \<^verbatim>\<open>None\<close> is as false as
  the empty string and is represented by it.
\<close>

datatype text_attribute = NoTextAttribute | TextIsNone | TextIs string

record content_block =
  block_type :: string
  block_text :: string

datatype message_content = ContentList "content_block list" | NotAList

record message =
  msg_content :: message_content
  msg_text :: text_attribute
  msg_repr :: string

text \<open>
  The exceptions \<^verbatim>\<open>client.messages.create\<close> can raise, by the \<^verbatim>\<open>except\<close> clause
  that catches them, with what the handlers read: \<^verbatim>\<open>str(e)\<close>, and for a status
  error the HTTP response \<^verbatim>\<open>e.response\<close>, whose status is \<^verbatim>\<open>e.status_code\<close>.

  Of the HTTP response the model keeps the status code, the reason phrase of the status
  line and the body, which is where the service puts the detail of an error.
  \<open>str_response\<close> is \<^verbatim>\<open>str(e.response)\<close> as the HTTP library of the SDK defines it
  (\<^verbatim>\<open>httpx.Response.__repr__\<close>, outside the script): the status code and the reason
  phrase between \<^verbatim>\<open><Response [\<close> and \<^verbatim>\<open>]>\<close>, and nothing of the body.
\<close>

record http_response =
  status_code :: int
  reason_phrase :: string
  body :: string

definition str_response :: "http_response \<Rightarrow> string" where
  "str_response r = ''<Response ['' @ show_int (status_code r) @ '' '' @ reason_phrase r @ '']>''"

datatype api_exception =
    APIConnectionError string
  | APIStatusError http_response
  | AnthropicError string
  | OtherException string

datatype api_result = Returned message | Raised api_exception

record request =
  req_model :: string
  req_max_tokens :: int
  req_messages :: "(string \<times> string) list"
  req_system :: string

datatype client = Client string

record world =
  environ :: "string \<Rightarrow> string option"
  module_dir :: string
  fs :: "string \<Rightarrow> read_result"
  Anthropic :: "string \<Rightarrow> string + client"
  messages_create :: "client \<Rightarrow> request \<Rightarrow> api_result"
  unicode_lower :: "string \<Rightarrow> string"

text \<open>
  \<open>Anthropic w key\<close> is the constructor call \<^verbatim>\<open>Anthropic(api_key=key)\<close>: a client, or
  the text of the exception it raised. \<open>module_dir\<close> is
  \<^verbatim>\<open>os.path.dirname(__file__)\<close>. \<open>unicode_lower\<close> is \<^verbatim>\<open>str.lower\<close> on texts
  that are not ASCII only.
\<close>

datatype event =
    Stdout string
  | Stderr string
  | EnvGet string
  | FileOpen string
  | ApiRequest client request

type_synonym trace = "event list"

record args =
  files :: "string list"
  model :: string
  max_tokens :: int
  verbose :: bool

subsection \<open>Configuration\<close>

definition DEFAULT_MODEL :: string where
  "DEFAULT_MODEL = ''claude-3-sonnet-20240229''"

definition DEFAULT_MAX_TOKENS :: int where
  "DEFAULT_MAX_TOKENS = 4000"

definition API_KEY_ENV_VAR :: string where
  "API_KEY_ENV_VAR = ''ANTHROPIC_API_KEY''"

definition CODEWAY_PROMPT_FILENAME :: "world \<Rightarrow> string" where
  "CODEWAY_PROMPT_FILENAME w = path_join (path_join (module_dir w) ''prompts'') ''codeway.md''"

subsection \<open>Helper functions\<close>

definition read_file_content :: "world \<Rightarrow> string \<Rightarrow> bool \<Rightarrow> trace \<times> (int + string option)" where
  "read_file_content w filepath is_critical =
     (case fs w filepath of
        Content s \<Rightarrow> ([FileOpen filepath], Inr (Some s))
      | FileNotFound \<Rightarrow>
          ([FileOpen filepath, Stderr (warn @ '' Error: File not found: '' @ filepath)],
           if is_critical then Inl 1 else Inr None)
      | ReadFailure e \<Rightarrow>
          ([FileOpen filepath, Stderr (warn @ '' Error reading file '' @ filepath @ '': '' @ e)],
           if is_critical then Inl 1 else Inr None))"

definition get_api_key :: "world \<Rightarrow> string \<Rightarrow> trace \<times> string option" where
  "get_api_key w env_var_name =
     (let api_key = environ w env_var_name in
      if falsy api_key
      then ([EnvGet env_var_name,
             Stderr (warn @ '' Error: Environment variable '' @ [CHR 0x27] @ env_var_name @ [CHR 0x27] @ '' not set.''),
             Stderr ''Please set the environment variable with your Anthropic API key.''],
            api_key)
      else ([EnvGet env_var_name], api_key))"

definition initialize_anthropic_client :: "world \<Rightarrow> string option \<Rightarrow> trace \<times> client option" where
  "initialize_anthropic_client w api_key =
     (case api_key of
        None \<Rightarrow> ([], None)
      | Some k \<Rightarrow>
          if k = [] then ([], None)
          else (case Anthropic w k of
                  Inr c \<Rightarrow> ([], Some c)
                | Inl e \<Rightarrow> ([Stderr (warn @ '' Error initializing Anthropic client: '' @ e)], None)))"

text \<open>
  Lines 105 to 118 of the script: the value of \<^verbatim>\<open>response_text\<close> at the
  \<^verbatim>\<open>return\<close>, a string or, when it was taken from a \<^verbatim>\<open>text\<close> attribute holding
  \<^verbatim>\<open>None\<close>, \<^verbatim>\<open>None\<close>. \<^verbatim>\<open>next(...)\<close> over the generator is the text of the first
  block of type \<^verbatim>\<open>'text'\<close>, or \<^verbatim>\<open>None\<close>.
\<close>

definition first_text_block :: "content_block list \<Rightarrow> string option" where
  "first_text_block blocks = map_option block_text (find (\<lambda>block. block_type block = ''text'') blocks)"

definition no_text_warning :: string where
  "no_text_warning = warn @ '' Warning: No text content found in Claude'' @ [CHR 0x27] @ ''s response.''"

definition response_text :: "message \<Rightarrow> trace \<times> string option" where
  "response_text msg =
     (case msg_content msg of
        ContentList (b # bs) \<Rightarrow>
          (case first_text_block (b # bs) of
             Some text_block \<Rightarrow>
               if text_block \<noteq> [] then ([], Some text_block) else ([Stderr no_text_warning], Some [])
           | None \<Rightarrow> ([Stderr no_text_warning], Some []))
      | _ \<Rightarrow>
          (case msg_text msg of
             TextIs t \<Rightarrow> ([], Some t)
           | TextIsNone \<Rightarrow> ([], None)
           | NoTextAttribute \<Rightarrow>
               ([Stderr (warn @ '' Warning: Unexpected response structure from Claude.''),
                 Stderr (''Full response object: '' @ msg_repr msg)], Some [])))"

text \<open>Lines 123 to 137: what the handler of a status error prints.\<close>

definition status_error_report :: "world \<Rightarrow> http_response \<Rightarrow> trace" where
  "status_error_report w response =
     Stderr (warn @ '' API Status Error: '' @ show_int (status_code response) @ '' - '' @ str_response response) #
     (if status_code response = 401 then [Stderr ''   (Check if your API key is correct and active)'']
      else if status_code response = 429 then [Stderr ''   (You might be exceeding rate limits)'']
      else if status_code response = 400 then
        (let response_body = lower (unicode_lower w) (str_response response) in
         if str_in ''context_length_exceeded'' response_body \<or> str_in ''token limit'' response_body
         then [Stderr (''   (Input code + system prompt likely exceed the model'' @ [CHR 0x27] @ ''s context window)'')]
         else [Stderr ''   (Bad request - check input formatting or parameters)''])
      else [])"

definition missing_system_prompt :: string where
  "missing_system_prompt = warn @ '' Error: System prompt (from codeway.md) is missing or empty.''"

definition call_claude_api ::
  "world \<Rightarrow> client \<Rightarrow> string \<Rightarrow> int \<Rightarrow> string option \<Rightarrow> string \<Rightarrow> trace \<times> string option" where
  "call_claude_api w cl mdl max_toks system_prompt user_prompt =
     (let t0 = [Stdout (nl @ ''Sending request to Claude (model: '' @ mdl @ '')...'')] in
      case system_prompt of
        None \<Rightarrow> (t0 @ [Stderr missing_system_prompt], None)
      | Some sp \<Rightarrow>
          if sp = [] then (t0 @ [Stderr missing_system_prompt], None)
          else
            (let api_args = \<lparr>req_model = mdl, req_max_tokens = max_toks,
                              req_messages = [(''user'', user_prompt)], req_system = sp\<rparr> in
             case messages_create w cl api_args of
               Returned msg \<Rightarrow>
                 (case response_text msg of
                    (t1, txt) \<Rightarrow> (t0 @ [ApiRequest cl api_args] @ t1, txt))
             | Raised (APIConnectionError e) \<Rightarrow>
                 (t0 @ [ApiRequest cl api_args,
                        Stderr (warn @ '' API Connection Error: Please check your network connection. '' @ e)],
                  None)
             | Raised (APIStatusError response) \<Rightarrow>
                 (t0 @ [ApiRequest cl api_args] @ status_error_report w response, None)
             | Raised (AnthropicError e) \<Rightarrow>
                 (t0 @ [ApiRequest cl api_args, Stderr (warn @ '' Anthropic API Error: '' @ e)], None)
             | Raised (OtherException e) \<Rightarrow>
                 (t0 @ [ApiRequest cl api_args,
                        Stderr (warn @ '' An unexpected error occurred during API call: '' @ e)],
                  None)))"

subsection \<open>Main execution logic\<close>

text \<open>
  \<open>main\<close> is modelled from the parsed arguments on (\<^verbatim>\<open>args = parser.parse_args()\<close>):
  \<^verbatim>\<open>nargs='+'\<close> makes \<open>files\<close> a list of at least one path.

  The loop over \<^verbatim>\<open>args.files\<close>, with its two accumulators
  \<^verbatim>\<open>code_files_aggregated\<close> and \<^verbatim>\<open>valid_files_processed\<close>.
\<close>

definition start_marker :: "string \<Rightarrow> string" where
  "start_marker filepath = ''--- Start of code file: '' @ basename filepath @ '' ---''"

definition end_marker :: "string \<Rightarrow> string" where
  "end_marker filepath = ''--- End of code file: '' @ basename filepath @ '' ---'' @ nl"

fun read_code_files ::
  "world \<Rightarrow> string list \<Rightarrow> string list \<Rightarrow> nat \<Rightarrow> trace \<times> (int + string list \<times> nat)" where
  "read_code_files w [] code_files_aggregated valid_files_processed =
     ([], Inr (code_files_aggregated, valid_files_processed))"
| "read_code_files w (filepath # rest) code_files_aggregated valid_files_processed =
     (let t0 = [Stdout (''Processing: '' @ filepath @ ''...'')] in
      case read_file_content w filepath False of
        (t1, Inl code) \<Rightarrow> (t0 @ t1, Inl code)
      | (t1, Inr (Some content)) \<Rightarrow>
          (case read_code_files w rest
                  (code_files_aggregated @ [start_marker filepath, content, end_marker filepath])
                  (valid_files_processed + 1) of
             (t2, r) \<Rightarrow> (t0 @ t1 @ t2, r))
      | (t1, Inr None) \<Rightarrow>
          (case read_code_files w rest code_files_aggregated valid_files_processed of
             (t2, r) \<Rightarrow>
               (t0 @ t1 @ [Stderr (''Skipping file '' @ filepath @ '' due to read error.'')] @ t2, r)))"

definition final_user_prompt :: "nat \<Rightarrow> string \<Rightarrow> string" where
  "final_user_prompt valid_files_processed combined_code_text =
     ''Apply the Code Way framework (provided in the system prompt) to analyze the following code contained in ''
       @ show_nat valid_files_processed @ '' file(s):'' @ nl @ nl
       @ combined_code_text @ nl @ nl
       @ ''Provide your analysis based *only* on the framework and the code provided.''"

text \<open>
  The verbose preview (lines 230 to 235). The framework text is a string whenever this
  point is reached; were it \<^verbatim>\<open>None\<close>, slicing it would raise \<^verbatim>\<open>TypeError\<close> after
  the first line is printed, and the interpreter would leave with status 1 (\<open>Inl\<close>).
\<close>

definition verbose_preview :: "world \<Rightarrow> string option \<Rightarrow> string \<Rightarrow> trace + trace" where
  "verbose_preview w codeway_system_prompt user_prompt =
     (case codeway_system_prompt of
        None \<Rightarrow>
          Inl [Stdout (nl @ ''--- Prompts Being Sent to Claude ---''),
               Stderr (''TypeError: '' @ [CHR 0x27] @ ''NoneType'' @ [CHR 0x27] @ '' object is not subscriptable'')]
      | Some sp \<Rightarrow>
          Inr [Stdout (nl @ ''--- Prompts Being Sent to Claude ---''),
               Stdout (''[SYSTEM PROMPT from '' @ CODEWAY_PROMPT_FILENAME w @ '']:'' @ nl @ take_chars 500 sp
                         @ ''... (truncated)''),
               Stdout (nl @ ''[USER PROMPT]:''),
               Stdout user_prompt,
               Stdout ''------------------------------------''])"

definition banner :: string where
  "banner = nl @ ''--- Code Way Analysis Response ---''"

definition footer :: string where
  "footer = ''----------------------------------''"

text \<open>Lines 248 to 255: the response block, or the failure notice.\<close>

definition render :: "string option \<Rightarrow> trace \<times> int" where
  "render analysis_response =
     (case analysis_response of
        Some txt \<Rightarrow> ([Stdout banner, Stdout txt, Stdout footer], 0)
      | None \<Rightarrow> ([Stderr (nl @ ''Failed to get analysis from Claude.'')], 1))"

definition main :: "world \<Rightarrow> args \<Rightarrow> trace \<times> int" where
  "main w a =
     (case get_api_key w API_KEY_ENV_VAR of (t1, api_key) \<Rightarrow>
      if falsy api_key then (t1, 1)
      else
       (case initialize_anthropic_client w api_key of
          (t2, None) \<Rightarrow> (t1 @ t2, 1)
        | (t2, Some cl) \<Rightarrow>
           (let t3 = [Stdout (''--- Reading Code Way framework from: '' @ CODEWAY_PROMPT_FILENAME w @ '' ---'')] in
            case read_file_content w (CODEWAY_PROMPT_FILENAME w) True of
              (t4, Inl code) \<Rightarrow> (t1 @ t2 @ t3 @ t4, code)
            | (t4, Inr codeway_system_prompt) \<Rightarrow>
               (let t5 = [Stdout ''--- Reading Code Files ---''] in
                case read_code_files w (files a) [] 0 of
                  (t6, Inl code) \<Rightarrow> (t1 @ t2 @ t3 @ t4 @ t5 @ t6, code)
                | (t6, Inr (code_files_aggregated, valid_files_processed)) \<Rightarrow>
                   if valid_files_processed = 0
                   then (t1 @ t2 @ t3 @ t4 @ t5 @ t6 @
                         [Stderr (nl @ warn @ '' Error: No valid code files could be read. Exiting.'')], 1)
                   else
                    (let t7 = [Stdout (''Successfully read '' @ show_nat valid_files_processed @ '' code file(s).'')];
                         combined_code_text = join nl code_files_aggregated;
                         user_prompt = final_user_prompt valid_files_processed combined_code_text in
                     case (if verbose a then verbose_preview w codeway_system_prompt user_prompt else Inr []) of
                       Inl t8 \<Rightarrow> (t1 @ t2 @ t3 @ t4 @ t5 @ t6 @ t7 @ t8, 1)
                     | Inr t8 \<Rightarrow>
                        (case call_claude_api w cl (model a) (max_tokens a) codeway_system_prompt user_prompt of
                           (t9, analysis_response) \<Rightarrow>
                             (case render analysis_response of
                                (t10, code) \<Rightarrow>
                                  (t1 @ t2 @ t3 @ t4 @ t5 @ t6 @ t7 @ t8 @ t9 @ t10, code))))))))"

subsection \<open>Observing a run\<close>

text \<open>What a trace shows on each channel: the lines printed, the files opened, the requests sent.\<close>

fun stdout_of :: "trace \<Rightarrow> string list" where
  "stdout_of [] = []"
| "stdout_of (Stdout s # tr) = s # stdout_of tr"
| "stdout_of (e # tr) = stdout_of tr"

fun stderr_of :: "trace \<Rightarrow> string list" where
  "stderr_of [] = []"
| "stderr_of (Stderr s # tr) = s # stderr_of tr"
| "stderr_of (e # tr) = stderr_of tr"

fun file_opens :: "trace \<Rightarrow> string list" where
  "file_opens [] = []"
| "file_opens (FileOpen p # tr) = p # file_opens tr"
| "file_opens (e # tr) = file_opens tr"

fun api_requests :: "trace \<Rightarrow> request list" where
  "api_requests [] = []"
| "api_requests (ApiRequest c r # tr) = r # api_requests tr"
| "api_requests (e # tr) = api_requests tr"

text \<open>
  The vocabulary of the properties below. A path is \<open>readable\<close> when opening and reading it
  gives a text; \<open>readable_files\<close> pairs the readable paths of a list, in the order of the
  list, with their texts. \<open>segments\<close>, \<open>file_text\<close>, \<open>payload\<close> and \<open>user_prompt_of\<close> say
  what the properties expect the loop and the prompt construction of \<open>main\<close> to produce;
  that the code produces exactly this is proved, not assumed.
\<close>

definition readable :: "world \<Rightarrow> string \<Rightarrow> bool" where
  "readable w p = (case fs w p of Content s \<Rightarrow> True | _ \<Rightarrow> False)"

definition readable_files :: "world \<Rightarrow> string list \<Rightarrow> (string \<times> string) list" where
  "readable_files w paths =
     List.map_filter (\<lambda>p. case fs w p of Content s \<Rightarrow> Some (p, s) | _ \<Rightarrow> None) paths"

definition segments :: "string \<times> string \<Rightarrow> string list" where
  "segments f = [start_marker (fst f), snd f, end_marker (fst f)]"

definition file_text :: "string \<times> string \<Rightarrow> string" where
  "file_text f = start_marker (fst f) @ nl @ snd f @ nl @ end_marker (fst f)"

definition payload :: "world \<Rightarrow> string list \<Rightarrow> string" where
  "payload w paths = join nl (concat (map segments (readable_files w paths)))"

definition user_prompt_of :: "world \<Rightarrow> string list \<Rightarrow> string" where
  "user_prompt_of w paths = final_user_prompt (length (readable_files w paths)) (payload w paths)"

definition loop_trace :: "world \<Rightarrow> string list \<Rightarrow> trace" where
  "loop_trace w paths = fst (read_code_files w paths [] 0)"

definition preview_of :: "world \<Rightarrow> args \<Rightarrow> string \<Rightarrow> trace" where
  "preview_of w a sp =
     (if verbose a
      then [Stdout (nl @ ''--- Prompts Being Sent to Claude ---''),
            Stdout (''[SYSTEM PROMPT from '' @ CODEWAY_PROMPT_FILENAME w @ '']:'' @ nl @ take_chars 500 sp
                      @ ''... (truncated)''),
            Stdout (nl @ ''[USER PROMPT]:''),
            Stdout (user_prompt_of w (files a)),
            Stdout ''------------------------------------'']
      else [])"

definition sending_line :: "string \<Rightarrow> string" where
  "sending_line mdl = nl @ ''Sending request to Claude (model: '' @ mdl @ '')...''"

text \<open>
  The request of a call and of the run, the lines a run prints before the call, and the
  diagnostics of the remote call, named for the statements below.
\<close>

definition request_of :: "string \<Rightarrow> int \<Rightarrow> string \<Rightarrow> string \<Rightarrow> request" where
  "request_of mdl max_toks sp user_prompt =
     \<lparr>req_model = mdl, req_max_tokens = max_toks, req_messages = [(''user'', user_prompt)], req_system = sp\<rparr>"

definition run_request :: "world \<Rightarrow> args \<Rightarrow> string \<Rightarrow> request" where
  "run_request w a sp = request_of (model a) (max_tokens a) sp (user_prompt_of w (files a))"

definition progress_lines :: "world \<Rightarrow> args \<Rightarrow> string \<Rightarrow> string list" where
  "progress_lines w a sp =
     [''--- Reading Code Way framework from: '' @ CODEWAY_PROMPT_FILENAME w @ '' ---'',
      ''--- Reading Code Files ---'']
     @ map (\<lambda>p. ''Processing: '' @ p @ ''...'') (files a)
     @ [''Successfully read '' @ show_nat (length (readable_files w (files a))) @ '' code file(s).'']
     @ stdout_of (preview_of w a sp)
     @ [sending_line (model a)]"

definition unexpected_structure :: "message \<Rightarrow> string list" where
  "unexpected_structure msg =
     [warn @ '' Warning: Unexpected response structure from Claude.'', ''Full response object: '' @ msg_repr msg]"

definition status_line :: "http_response \<Rightarrow> string" where
  "status_line response =
     warn @ '' API Status Error: '' @ show_int (status_code response) @ '' - '' @ str_response response"

definition overflow_wording :: "world \<Rightarrow> string \<Rightarrow> bool" where
  "overflow_wording w detail =
     (str_in ''context_length_exceeded'' (lower (unicode_lower w) detail)
      \<or> str_in ''token limit'' (lower (unicode_lower w) detail))"

definition hint_unauthorized :: string where
  "hint_unauthorized = ''   (Check if your API key is correct and active)''"

definition hint_rate_limit :: string where
  "hint_rate_limit = ''   (You might be exceeding rate limits)''"

definition hint_context_window :: string where
  "hint_context_window =
     ''   (Input code + system prompt likely exceed the model'' @ [CHR 0x27] @ ''s context window)''"

definition hint_bad_request :: string where
  "hint_bad_request = ''   (Bad request - check input formatting or parameters)''"

definition failure_notice :: string where
  "failure_notice = nl @ ''Failed to get analysis from Claude.''"

subsection \<open>Example runs\<close>

text \<open>
  Concrete worlds on which the theorems are exercised: a credential, the framework
  document under \<^verbatim>\<open>/opt/prompts\<close>, two readable code files, and a service that
  answers every request in the same way. No text that is lower-cased in these runs has a
  character outside ASCII, so the value given to \<open>unicode_lower\<close> plays no part.
\<close>

definition text_block :: "string \<Rightarrow> content_block" where
  "text_block t = \<lparr>block_type = ''text'', block_text = t\<rparr>"

definition tool_block :: content_block where
  "tool_block = \<lparr>block_type = ''tool_use'', block_text = []\<rparr>"

definition msg_of :: "content_block list \<Rightarrow> text_attribute \<Rightarrow> message" where
  "msg_of bs t = \<lparr>msg_content = ContentList bs, msg_text = t, msg_repr = ''Message()''\<rparr>"

definition world_with :: "api_result \<Rightarrow> world" where
  "world_with r =
     \<lparr>environ = (\<lambda>v. if v = ''ANTHROPIC_API_KEY'' then Some ''sk-1'' else None),
      module_dir = ''/opt'',
      fs = (\<lambda>p. if p = ''/opt/prompts/codeway.md'' then Content ''Be kind.''
                 else if p = ''src/a.py'' then Content ''x = 1''
                 else if p = ''b.py'' then Content ''y = 2''
                 else if p = ''locked.py'' then ReadFailure ''Permission denied''
                 else FileNotFound),
      Anthropic = (\<lambda>k. Inr (Client k)),
      messages_create = (\<lambda>c q. r),
      unicode_lower = (\<lambda>s. s)\<rparr>"

definition w_ok :: world where
  "w_ok = world_with (Returned (msg_of [text_block ''Looks fine.''] NoTextAttribute))"

definition args_of :: "string list \<Rightarrow> bool \<Rightarrow> args" where
  "args_of paths v = \<lparr>files = paths, model = DEFAULT_MODEL, max_tokens = DEFAULT_MAX_TOKENS, verbose = v\<rparr>"

definition w_unset :: world where
  "w_unset = w_ok\<lparr>environ := (\<lambda>v. None)\<rparr>"

definition w_blank :: world where
  "w_blank = w_ok\<lparr>environ := (\<lambda>v. Some [])\<rparr>"

definition w_nofw :: world where
  "w_nofw = w_ok\<lparr>module_dir := ''/elsewhere''\<rparr>"

definition w_tool :: world where
  "w_tool = world_with (Returned (msg_of [tool_block] NoTextAttribute))"

definition w_bare :: world where
  "w_bare = world_with (Returned (msg_of [] (TextIs ''Plain answer'')))"

definition w_hollow :: world where
  "w_hollow = world_with (Returned (msg_of [tool_block, text_block [], text_block ''later''] NoTextAttribute))"

definition http_error :: "int \<Rightarrow> string \<Rightarrow> string \<Rightarrow> http_response" where
  "http_error code reason detail = \<lparr>status_code = code, reason_phrase = reason, body = detail\<rparr>"

definition overflow_detail :: string where
  "overflow_detail = ''{type: error, error: {type: invalid_request_error, message: context_length_exceeded}}''"

definition w_400 :: world where
  "w_400 = world_with (Raised (APIStatusError (http_error 400 ''Bad Request'' overflow_detail)))"

definition w_void :: world where
  "w_void = world_with (Returned (msg_of [] NoTextAttribute))"

definition w_mixed :: world where
  "w_mixed = world_with (Returned (msg_of [tool_block, text_block ''Second opinion.'', tool_block] NoTextAttribute))"

definition w_none :: world where
  "w_none = world_with (Returned (msg_of [] TextIsNone))"

definition w_silent :: world where
  "w_silent = world_with (Returned (msg_of [text_block []] NoTextAttribute))"

section \<open>Properties\<close>

subsection \<open>Traces\<close>

lemma stdout_of_append [simp]: "stdout_of (xs @ ys) = stdout_of xs @ stdout_of ys"
  by (induction xs rule: stdout_of.induct) auto

lemma stderr_of_append [simp]: "stderr_of (xs @ ys) = stderr_of xs @ stderr_of ys"
  by (induction xs rule: stderr_of.induct) auto

lemma file_opens_append [simp]: "file_opens (xs @ ys) = file_opens xs @ file_opens ys"
  by (induction xs rule: file_opens.induct) auto

lemma api_requests_append [simp]: "api_requests (xs @ ys) = api_requests xs @ api_requests ys"
  by (induction xs rule: api_requests.induct) auto

subsection \<open>The reading loop\<close>

lemma readable_files_Nil [simp]: "readable_files w [] = []"
  by (simp add: readable_files_def map_filter_simps)

lemma readable_files_Cons:
  "readable_files w (p # ps) =
     (case fs w p of Content s \<Rightarrow> (p, s) # readable_files w ps | _ \<Rightarrow> readable_files w ps)"
  by (simp add: readable_files_def map_filter_simps split: read_result.splits)

lemma readable_files_paths: "map fst (readable_files w paths) = filter (readable w) paths"
  by (induction paths) (auto simp: readable_files_Cons readable_def split: read_result.splits)

lemma readable_files_content: "(p, s) \<in> set (readable_files w paths) \<Longrightarrow> fs w p = Content s"
  by (induction paths) (auto simp: readable_files_Cons split: read_result.splits)

lemma readable_files_empty: "(readable_files w paths = []) = (\<forall>p\<in>set paths. \<not> readable w p)"
  by (induction paths) (auto simp: readable_files_Cons readable_def split: read_result.splits)

lemma read_code_files_result:
  "snd (read_code_files w paths agg n) =
     Inr (agg @ concat (map segments (readable_files w paths)), n + length (readable_files w paths))"
proof (induction paths arbitrary: agg n)
  case Nil
  show ?case by simp
next
  case (Cons p ps)
  show ?case
  proof (cases "fs w p")
    case (Content s)
    have "snd (read_code_files w (p # ps) agg n) =
            snd (read_code_files w ps (agg @ [start_marker p, s, end_marker p]) (n + 1))"
      by (simp add: read_file_content_def Content split_beta)
    then show ?thesis
      by (simp add: Cons.IH readable_files_Cons Content segments_def)
  next
    case FileNotFound
    have "snd (read_code_files w (p # ps) agg n) = snd (read_code_files w ps agg n)"
      by (simp add: read_file_content_def FileNotFound split_beta)
    then show ?thesis
      by (simp add: Cons.IH readable_files_Cons FileNotFound)
  next
    case (ReadFailure e)
    have "snd (read_code_files w (p # ps) agg n) = snd (read_code_files w ps agg n)"
      by (simp add: read_file_content_def ReadFailure split_beta)
    then show ?thesis
      by (simp add: Cons.IH readable_files_Cons ReadFailure)
  qed
qed

lemma read_code_files_eq:
  "read_code_files w paths [] 0 =
     (loop_trace w paths,
      Inr (concat (map segments (readable_files w paths)), length (readable_files w paths)))"
  using read_code_files_result [of w paths "[]" 0] by (simp add: prod_eq_iff loop_trace_def)

lemma read_code_files_api: "api_requests (fst (read_code_files w paths agg n)) = []"
proof (induction paths arbitrary: agg n)
  case Nil
  show ?case by simp
next
  case (Cons p ps)
  show ?case
    by (cases "fs w p") (simp_all add: read_file_content_def Cons.IH split_beta)
qed

lemma read_code_files_opens: "file_opens (fst (read_code_files w paths agg n)) = paths"
proof (induction paths arbitrary: agg n)
  case Nil
  show ?case by simp
next
  case (Cons p ps)
  show ?case
    by (cases "fs w p") (simp_all add: read_file_content_def Cons.IH split_beta)
qed

lemma read_code_files_stdout:
  "stdout_of (fst (read_code_files w paths agg n)) = map (\<lambda>p. ''Processing: '' @ p @ ''...'') paths"
proof (induction paths arbitrary: agg n)
  case Nil
  show ?case by simp
next
  case (Cons p ps)
  show ?case
    by (cases "fs w p") (simp_all add: read_file_content_def Cons.IH split_beta)
qed

lemma loop_trace_api [simp]: "api_requests (loop_trace w paths) = []"
  by (simp add: loop_trace_def read_code_files_api)

lemma loop_trace_opens [simp]: "file_opens (loop_trace w paths) = paths"
  by (simp add: loop_trace_def read_code_files_opens)

lemma loop_trace_stdout [simp]:
  "stdout_of (loop_trace w paths) = map (\<lambda>p. ''Processing: '' @ p @ ''...'') paths"
  by (simp add: loop_trace_def read_code_files_stdout)

subsection \<open>The run up to the remote call\<close>

lemma main_reaches_call:
  assumes key: "environ w API_KEY_ENV_VAR = Some k" "k \<noteq> []"
    and cl: "Anthropic w k = Inr cl"
    and fw: "fs w (CODEWAY_PROMPT_FILENAME w) = Content sp"
    and rd: "readable_files w (files a) \<noteq> []"
  shows "main w a =
     ([EnvGet API_KEY_ENV_VAR,
       Stdout (''--- Reading Code Way framework from: '' @ CODEWAY_PROMPT_FILENAME w @ '' ---''),
       FileOpen (CODEWAY_PROMPT_FILENAME w),
       Stdout ''--- Reading Code Files ---'']
      @ loop_trace w (files a)
      @ [Stdout (''Successfully read '' @ show_nat (length (readable_files w (files a))) @ '' code file(s).'')]
      @ preview_of w a sp
      @ fst (call_claude_api w cl (model a) (max_tokens a) (Some sp) (user_prompt_of w (files a)))
      @ fst (render (snd (call_claude_api w cl (model a) (max_tokens a) (Some sp) (user_prompt_of w (files a))))),
      snd (render (snd (call_claude_api w cl (model a) (max_tokens a) (Some sp) (user_prompt_of w (files a))))))"
proof -
  have k: "get_api_key w API_KEY_ENV_VAR = ([EnvGet API_KEY_ENV_VAR], Some k)"
    using key by (simp add: get_api_key_def falsy_def)
  have c: "initialize_anthropic_client w (Some k) = ([], Some cl)"
    using key cl by (simp add: initialize_anthropic_client_def)
  have f: "read_file_content w (CODEWAY_PROMPT_FILENAME w) True =
             ([FileOpen (CODEWAY_PROMPT_FILENAME w)], Inr (Some sp))"
    using fw by (simp add: read_file_content_def)
  have n: "length (readable_files w (files a)) \<noteq> 0"
    using rd by simp
  show ?thesis
    using key(2) n
    by (simp add: main_def k c f read_code_files_eq falsy_def verbose_preview_def preview_of_def
        user_prompt_of_def payload_def split_beta Let_def)
qed

lemma read_file_opens: "file_opens (fst (read_file_content w p c)) = [p]"
  by (simp add: read_file_content_def split: read_result.splits)

lemma read_file_api: "api_requests (fst (read_file_content w p c)) = []"
  by (simp add: read_file_content_def split: read_result.splits)

lemma read_file_stdout: "stdout_of (fst (read_file_content w p c)) = []"
  by (simp add: read_file_content_def split: read_result.splits)

lemma read_critical_unreadable: "\<not> readable w p \<Longrightarrow> snd (read_file_content w p True) = Inl 1"
  by (simp add: read_file_content_def readable_def split: read_result.splits)

lemma prompt_of_world_with: "CODEWAY_PROMPT_FILENAME (world_with r) = ''/opt/prompts/codeway.md''"
  by (simp add: CODEWAY_PROMPT_FILENAME_def world_with_def path_join_def)

subsection \<open>Exits before the remote call\<close>

text \<open>
  C3. When the credential variable is unset or empty, the run exits with status 1, and it
  does so before the framework document or any code file is opened: the trace holds no
  file access (and no request).
\<close>

theorem credential_missing_exits_first:
  assumes "environ w API_KEY_ENV_VAR = None \<or> environ w API_KEY_ENV_VAR = Some []"
  shows "snd (main w a) = 1 \<and> file_opens (fst (main w a)) = [] \<and> api_requests (fst (main w a)) = []"
  using assms by (auto simp: main_def get_api_key_def falsy_def)

theorem credential_missing_exits_first_witness:
  "snd (main w_unset (args_of [''src/a.py''] False)) = 1
   \<and> file_opens (fst (main w_unset (args_of [''src/a.py''] False))) = []
   \<and> snd (main w_blank (args_of [''src/a.py''] False)) = 1
   \<and> file_opens (fst (main w_blank (args_of [''src/a.py''] False))) = []"
  using credential_missing_exits_first [of w_unset "args_of [''src/a.py''] False"]
        credential_missing_exits_first [of w_blank "args_of [''src/a.py''] False"]
  by (simp add: w_unset_def w_blank_def)

text \<open>
  C5. Called with an absent or empty system instruction, the remote-call operation prints
  its announcement, emits the diagnostic on the error stream and returns the failure
  signal; no request is sent.
\<close>

theorem missing_system_prompt_no_request:
  assumes "system_prompt = None \<or> system_prompt = Some []"
  shows "call_claude_api w cl mdl max_toks system_prompt user_prompt =
           ([Stdout (sending_line mdl), Stderr missing_system_prompt], None)
         \<and> api_requests (fst (call_claude_api w cl mdl max_toks system_prompt user_prompt)) = []"
  using assms by (auto simp: call_claude_api_def sending_line_def)

theorem missing_system_prompt_no_request_witness:
  "call_claude_api w_ok (Client ''sk-1'') DEFAULT_MODEL 4000 None ''analyse'' =
       ([Stdout (sending_line DEFAULT_MODEL), Stderr missing_system_prompt], None)
   \<and> call_claude_api w_ok (Client ''sk-1'') DEFAULT_MODEL 4000 (Some []) ''analyse'' =
       ([Stdout (sending_line DEFAULT_MODEL), Stderr missing_system_prompt], None)"
  using missing_system_prompt_no_request [of None w_ok "Client ''sk-1''" DEFAULT_MODEL 4000 "''analyse''"]
        missing_system_prompt_no_request [of "Some []" w_ok "Client ''sk-1''" DEFAULT_MODEL 4000 "''analyse''"]
  by simp

text \<open>
  C4. When the framework document cannot be read, the run exits with status 1 before any
  code file is read: at most one file was opened, the framework document itself, the
  code-file phase was never announced, and no request was sent.
\<close>

theorem framework_unreadable_exits_before_code_files:
  assumes "\<not> readable w (CODEWAY_PROMPT_FILENAME w)"
  shows "snd (main w a) = 1
         \<and> (file_opens (fst (main w a)) = [] \<or> file_opens (fst (main w a)) = [CODEWAY_PROMPT_FILENAME w])
         \<and> ''--- Reading Code Files ---'' \<notin> set (stdout_of (fst (main w a)))
         \<and> api_requests (fst (main w a)) = []"
proof -
  have r: "snd (read_file_content w (CODEWAY_PROMPT_FILENAME w) True) = Inl 1"
    using assms by (rule read_critical_unreadable)
  obtain t4 where t4: "read_file_content w (CODEWAY_PROMPT_FILENAME w) True = (t4, Inl 1)"
    using r by (cases "read_file_content w (CODEWAY_PROMPT_FILENAME w) True") simp
  have o: "file_opens t4 = [CODEWAY_PROMPT_FILENAME w]" "stdout_of t4 = []" "api_requests t4 = []"
    using read_file_opens [of w "CODEWAY_PROMPT_FILENAME w" True]
      read_file_stdout [of w "CODEWAY_PROMPT_FILENAME w" True]
      read_file_api [of w "CODEWAY_PROMPT_FILENAME w" True] by (simp_all add: t4)
  show ?thesis
    by (auto simp: main_def get_api_key_def initialize_anthropic_client_def falsy_def t4 o Let_def
        split: option.splits sum.splits)
qed

theorem framework_unreadable_exits_before_code_files_witness:
  "\<not> readable w_nofw (CODEWAY_PROMPT_FILENAME w_nofw)
   \<and> snd (main w_nofw (args_of [''src/a.py'', ''b.py''] True)) = 1
   \<and> file_opens (fst (main w_nofw (args_of [''src/a.py'', ''b.py''] True))) = [''/elsewhere/prompts/codeway.md'']"
proof -
  have p: "CODEWAY_PROMPT_FILENAME w_nofw = ''/elsewhere/prompts/codeway.md''"
    by (simp add: CODEWAY_PROMPT_FILENAME_def w_nofw_def path_join_def)
  have u: "\<not> readable w_nofw (CODEWAY_PROMPT_FILENAME w_nofw)"
    by (simp add: p) (simp add: readable_def w_nofw_def w_ok_def world_with_def)
  have e: "file_opens (fst (main w_nofw (args_of [''src/a.py'', ''b.py''] True))) \<noteq> []"
    by (simp add: main_def get_api_key_def initialize_anthropic_client_def falsy_def Let_def
        w_nofw_def w_ok_def world_with_def API_KEY_ENV_VAR_def read_file_content_def
        CODEWAY_PROMPT_FILENAME_def path_join_def)
  show ?thesis
    using framework_unreadable_exits_before_code_files
            [OF u, of "args_of [''src/a.py'', ''b.py''] True"] u e
    by (simp add: p)
qed

text \<open>
  C2. When every path given on the command line fails to read, the run exits with status
  1 and its trace holds no request: the zero-files error ends the run before the call.
\<close>

theorem all_unreadable_exits_without_request:
  assumes "\<forall>p\<in>set (files a). \<not> readable w p"
  shows "snd (main w a) = 1 \<and> api_requests (fst (main w a)) = []"
proof -
  have e: "readable_files w (files a) = []"
    using assms by (simp add: readable_files_empty)
  obtain t4 r where t4: "read_file_content w (CODEWAY_PROMPT_FILENAME w) True = (t4, r)"
    by (cases "read_file_content w (CODEWAY_PROMPT_FILENAME w) True")
  have o: "api_requests t4 = []"
    using read_file_api [of w "CODEWAY_PROMPT_FILENAME w" True] by (simp add: t4)
  have c: "r = Inl 1 \<or> (\<exists>v. r = Inr v)"
    using t4 by (auto simp: read_file_content_def split: read_result.splits)
  show ?thesis
    using c
    by (auto simp: main_def get_api_key_def initialize_anthropic_client_def falsy_def t4 o
        read_code_files_eq e Let_def split: option.splits sum.splits)
qed

theorem all_unreadable_exits_without_request_witness:
  "\<not> readable w_ok ''missing.py'' \<and> \<not> readable w_ok ''locked.py''
   \<and> snd (main w_ok (args_of [''missing.py'', ''locked.py''] False)) = 1
   \<and> api_requests (fst (main w_ok (args_of [''missing.py'', ''locked.py''] False))) = []"
proof -
  have u: "\<forall>p\<in>set (files (args_of [''missing.py'', ''locked.py''] False)). \<not> readable w_ok p"
    by (simp add: args_of_def readable_def w_ok_def world_with_def)
  have v: "\<not> readable w_ok ''missing.py'' \<and> \<not> readable w_ok ''locked.py''"
    by (simp add: readable_def w_ok_def world_with_def)
  show ?thesis
    using all_unreadable_exits_without_request [OF u] v by simp
qed

subsection \<open>Joining the segments\<close>

lemma join_tail: "join sep (x # xs) = x @ concat (map (\<lambda>y. sep @ y) xs)"
  by (induction xs arbitrary: x) auto

lemma concat_sep_shift:
  "concat (map (\<lambda>x. sep @ x) xs) @ sep = sep @ concat (map (\<lambda>x. x @ sep) xs)"
  by (induction xs) auto

lemma join_append_Cons:
  "join sep (xs @ y # ys) = concat (map (\<lambda>x. x @ sep) xs) @ y @ concat (map (\<lambda>x. sep @ x) ys)"
proof (cases xs)
  case Nil
  then show ?thesis by (simp add: join_tail)
next
  case (Cons x rest)
  have "join sep ((x # rest) @ y # ys) = x @ (concat (map (\<lambda>x. sep @ x) rest) @ sep) @ y @ concat (map (\<lambda>x. sep @ x) ys)"
    by (simp add: join_tail)
  also have "\<dots> = concat (map (\<lambda>x. x @ sep) (x # rest)) @ y @ concat (map (\<lambda>x. sep @ x) ys)"
    by (simp only: concat_sep_shift) simp
  finally show ?thesis by (simp add: Cons)
qed

lemma concat_segments_sep:
  "concat (map (\<lambda>y. nl @ y) (concat (map segments fl))) = concat (map (\<lambda>g. nl @ file_text g) fl)"
  by (induction fl) (auto simp: segments_def file_text_def)

lemma join_segments: "join nl (concat (map segments fl)) = join nl (map file_text fl)"
proof (cases fl)
  case Nil
  then show ?thesis by simp
next
  case (Cons f rest)
  have "join nl (concat (map segments (f # rest))) =
          start_marker (fst f) @ concat (map (\<lambda>y. nl @ y) ([snd f, end_marker (fst f)] @ concat (map segments rest)))"
    by (simp add: segments_def join_tail)
  also have "\<dots> = file_text f @ concat (map (\<lambda>g. nl @ file_text g) rest)"
    by (simp add: file_text_def concat_segments_sep)
  also have "\<dots> = join nl (map file_text (f # rest))"
    by (simp add: join_tail comp_def)
  finally show ?thesis by (simp add: Cons)
qed

lemma length_segments: "length (concat (map segments fl)) = 3 * length fl"
  by (induction fl) (auto simp: segments_def)

lemma segments_nth:
  "i < length fl \<Longrightarrow>
     concat (map segments fl) ! (3 * i) = start_marker (fst (fl ! i))
     \<and> concat (map segments fl) ! (3 * i + 1) = snd (fl ! i)
     \<and> concat (map segments fl) ! (3 * i + 2) = end_marker (fst (fl ! i))"
proof (induction fl arbitrary: i)
  case Nil
  then show ?case by simp
next
  case (Cons f rest)
  show ?case
  proof (cases i)
    case 0
    then show ?thesis by (simp add: segments_def)
  next
    case (Suc j)
    then have j: "j < length rest" using Cons.prems by simp
    have e: "3 * i = Suc (Suc (Suc (3 * j)))" using Suc by simp
    show ?thesis
      using Cons.IH [OF j] by (simp add: e segments_def Suc)
  qed
qed

lemma join_file_texts:
  assumes "i < length fl"
  shows "join nl (map file_text fl) =
           concat (map (\<lambda>g. file_text g @ nl) (take i fl)) @ file_text (fl ! i)
           @ concat (map (\<lambda>g. nl @ file_text g) (drop (Suc i) fl))"
proof -
  have "fl = take i fl @ fl ! i # drop (Suc i) fl"
    using assms by (rule id_take_nth_drop)
  then have "map file_text fl = map file_text (take i fl) @ file_text (fl ! i) # map file_text (drop (Suc i) fl)"
    by (metis list.simps(9) map_append)
  then show ?thesis
    by (simp add: join_append_Cons comp_def)
qed

text \<open>
  C6. The loop collects, for the readable files in command-line order, exactly three
  segments each: the start marker with the base name, the raw content, and the end marker
  with the base name and a newline after it. Segment \<open>3 * i + k\<close> belongs to the
  \<open>i\<close>-th readable file, and in the joined text the block of that file comes after
  the blocks of all earlier files and before those of all later ones; the newline that
  ends an end marker and the joining newline leave a blank line between two blocks.
\<close>

theorem payload_order_preserving:
  "\<exists>tr agg. read_code_files w paths [] 0 = (tr, Inr (agg, length (readable_files w paths)))
     \<and> map fst (readable_files w paths) = filter (readable w) paths
     \<and> (\<forall>f\<in>set (readable_files w paths). fs w (fst f) = Content (snd f))
     \<and> length agg = 3 * length (readable_files w paths)
     \<and> (\<forall>i<length (readable_files w paths).
           agg ! (3 * i) = ''--- Start of code file: '' @ basename (fst (readable_files w paths ! i)) @ '' ---''
         \<and> agg ! (3 * i + 1) = snd (readable_files w paths ! i)
         \<and> agg ! (3 * i + 2) = ''--- End of code file: '' @ basename (fst (readable_files w paths ! i)) @ '' ---'' @ nl
         \<and> join nl agg =
             concat (map (\<lambda>g. file_text g @ nl) (take i (readable_files w paths)))
             @ file_text (readable_files w paths ! i)
             @ concat (map (\<lambda>g. nl @ file_text g) (drop (Suc i) (readable_files w paths))))"
proof -
  let ?fl = "readable_files w paths"
  let ?agg = "concat (map segments ?fl)"
  have 1: "read_code_files w paths [] 0 = (loop_trace w paths, Inr (?agg, length ?fl))"
    by (rule read_code_files_eq)
  have 2: "map fst ?fl = filter (readable w) paths"
    by (rule readable_files_paths)
  have 3: "\<forall>f\<in>set ?fl. fs w (fst f) = Content (snd f)"
    using readable_files_content [of _ _ w paths] by auto
  have 4: "length ?agg = 3 * length ?fl"
    by (rule length_segments)
  have 5: "\<forall>i<length ?fl.
           ?agg ! (3 * i) = ''--- Start of code file: '' @ basename (fst (?fl ! i)) @ '' ---''
         \<and> ?agg ! (3 * i + 1) = snd (?fl ! i)
         \<and> ?agg ! (3 * i + 2) = ''--- End of code file: '' @ basename (fst (?fl ! i)) @ '' ---'' @ nl
         \<and> join nl ?agg =
             concat (map (\<lambda>g. file_text g @ nl) (take i ?fl)) @ file_text (?fl ! i)
             @ concat (map (\<lambda>g. nl @ file_text g) (drop (Suc i) ?fl))"
  proof (intro allI impI)
    fix i assume i: "i < length ?fl"
    show "?agg ! (3 * i) = ''--- Start of code file: '' @ basename (fst (?fl ! i)) @ '' ---''
         \<and> ?agg ! (3 * i + 1) = snd (?fl ! i)
         \<and> ?agg ! (3 * i + 2) = ''--- End of code file: '' @ basename (fst (?fl ! i)) @ '' ---'' @ nl
         \<and> join nl ?agg =
             concat (map (\<lambda>g. file_text g @ nl) (take i ?fl)) @ file_text (?fl ! i)
             @ concat (map (\<lambda>g. nl @ file_text g) (drop (Suc i) ?fl))"
      using segments_nth [OF i] join_file_texts [OF i]
      by (simp add: join_segments start_marker_def end_marker_def)
  qed
  show ?thesis
    using 1 2 3 4 5 by blast
qed

theorem payload_order_preserving_witness:
  "\<exists>tr agg. read_code_files w_ok [''src/a.py'', ''missing.py'', ''b.py''] [] 0 = (tr, Inr (agg, 2))
     \<and> agg ! 0 = ''--- Start of code file: a.py ---''
     \<and> agg ! 1 = ''x = 1''
     \<and> agg ! 2 = ''--- End of code file: a.py ---'' @ nl
     \<and> agg ! 3 = ''--- Start of code file: b.py ---''
     \<and> agg ! 4 = ''y = 2''
     \<and> agg ! 5 = ''--- End of code file: b.py ---'' @ nl
     \<and> join nl agg = file_text (''src/a.py'', ''x = 1'') @ nl @ file_text (''b.py'', ''y = 2'')"
proof -
  have rf: "readable_files w_ok [''src/a.py'', ''missing.py'', ''b.py''] =
              [(''src/a.py'', ''x = 1''), (''b.py'', ''y = 2'')]"
    by (simp add: readable_files_Cons w_ok_def world_with_def)
  obtain tr agg where a: "read_code_files w_ok [''src/a.py'', ''missing.py'', ''b.py''] [] 0 = (tr, Inr (agg, 2))"
    and b: "\<forall>i<2.
           agg ! (3 * i) = ''--- Start of code file: '' @ basename (fst ([(''src/a.py'', ''x = 1''), (''b.py'', ''y = 2'')] ! i)) @ '' ---''
         \<and> agg ! (3 * i + 1) = snd ([(''src/a.py'', ''x = 1''), (''b.py'', ''y = 2'')] ! i)
         \<and> agg ! (3 * i + 2) = ''--- End of code file: '' @ basename (fst ([(''src/a.py'', ''x = 1''), (''b.py'', ''y = 2'')] ! i)) @ '' ---'' @ nl
         \<and> join nl agg =
             concat (map (\<lambda>g. file_text g @ nl) (take i [(''src/a.py'', ''x = 1''), (''b.py'', ''y = 2'')]))
             @ file_text ([(''src/a.py'', ''x = 1''), (''b.py'', ''y = 2'')] ! i)
             @ concat (map (\<lambda>g. nl @ file_text g) (drop (Suc i) [(''src/a.py'', ''x = 1''), (''b.py'', ''y = 2'')]))"
    using payload_order_preserving [of w_ok "[''src/a.py'', ''missing.py'', ''b.py'']"]
    unfolding rf by auto
  have b0: "agg ! 0 = ''--- Start of code file: a.py ---'' \<and> agg ! 1 = ''x = 1''
            \<and> agg ! 2 = ''--- End of code file: a.py ---'' @ nl
            \<and> join nl agg = file_text (''src/a.py'', ''x = 1'') @ nl @ file_text (''b.py'', ''y = 2'')"
    using b [rule_format, of 0] by (simp add: basename_def numeral_2_eq_2)
  have b1: "agg ! 3 = ''--- Start of code file: b.py ---'' \<and> agg ! 4 = ''y = 2''
            \<and> agg ! 5 = ''--- End of code file: b.py ---'' @ nl"
    using b [rule_format, of 1] by (simp add: basename_def)
  show ?thesis
    using a b0 b1 by blast
qed

subsection \<open>What reaches standard output\<close>

lemma response_text_stdout [simp]: "stdout_of (fst (response_text msg)) = []"
  by (simp add: response_text_def
      split: message_content.splits list.splits option.splits text_attribute.splits)

lemma status_error_report_stdout [simp]: "stdout_of (status_error_report w r) = []"
  by (simp add: status_error_report_def Let_def)

lemma call_stdout: "stdout_of (fst (call_claude_api w cl mdl mt sp up)) = [sending_line mdl]"
  by (simp add: call_claude_api_def sending_line_def split_beta Let_def
      split: option.splits api_result.splits api_exception.splits)

lemma banner_not_progress:
  "banner \<notin> set (map (\<lambda>p. ''Processing: '' @ p @ ''...'') paths)"
  "footer \<notin> set (map (\<lambda>p. ''Processing: '' @ p @ ''...'') paths)"
  by (auto simp: banner_def footer_def nl_def)

lemma banner_not_preview:
  "banner \<notin> set (stdout_of (preview_of w a sp))" "footer \<notin> set (stdout_of (preview_of w a sp))"
  by (auto simp: preview_of_def banner_def footer_def nl_def user_prompt_of_def final_user_prompt_def)

lemma banner_not_in_progress: "banner \<notin> set (progress_lines w a sp)" "footer \<notin> set (progress_lines w a sp)"
  using banner_not_progress [of "files a"] banner_not_preview [of w a sp]
  by (auto simp: progress_lines_def banner_def footer_def nl_def sending_line_def)

lemma main_stdout:
  assumes key: "environ w API_KEY_ENV_VAR = Some k" "k \<noteq> []"
    and cl: "Anthropic w k = Inr cl"
    and fw: "fs w (CODEWAY_PROMPT_FILENAME w) = Content sp"
    and rd: "readable_files w (files a) \<noteq> []"
  shows "stdout_of (fst (main w a)) =
           progress_lines w a sp
           @ stdout_of (fst (render (snd (call_claude_api w cl (model a) (max_tokens a) (Some sp)
                                            (user_prompt_of w (files a))))))"
  by (simp add: main_reaches_call [OF key cl fw rd] call_stdout progress_lines_def)

text \<open>
  C1. With the credential set, the client constructed, the framework document read, at
  least one of the given paths readable and the remote call returning a text, the run
  exits with status 0 and standard output ends with the one response block: the banner,
  the returned text and the closing line, with neither delimiter printed before it,
  however many of the other paths failed to read.
\<close>

theorem readable_file_gives_one_response_block:
  assumes key: "environ w API_KEY_ENV_VAR = Some k" "k \<noteq> []"
    and cl: "Anthropic w k = Inr cl"
    and fw: "fs w (CODEWAY_PROMPT_FILENAME w) = Content sp"
    and rd: "\<exists>p\<in>set (files a). readable w p"
    and call: "snd (call_claude_api w cl (model a) (max_tokens a) (Some sp) (user_prompt_of w (files a))) = Some txt"
  shows "snd (main w a) = 0
         \<and> (\<exists>pre. stdout_of (fst (main w a)) = pre @ [banner, txt, footer]
                  \<and> banner \<notin> set pre \<and> footer \<notin> set pre)"
proof -
  have ne: "readable_files w (files a) \<noteq> []"
    using rd by (simp add: readable_files_empty)
  have x: "snd (main w a) = 0"
    by (simp add: main_reaches_call [OF key cl fw ne] call render_def)
  have o: "stdout_of (fst (main w a)) = progress_lines w a sp @ [banner, txt, footer]"
    by (simp add: main_stdout [OF key cl fw ne] call render_def)
  show ?thesis
    using x o banner_not_in_progress [of w a sp] by blast
qed

theorem readable_file_gives_one_response_block_witness:
  "snd (main w_ok (args_of [''src/a.py'', ''missing.py'', ''locked.py''] True)) = 0
   \<and> (\<exists>pre. stdout_of (fst (main w_ok (args_of [''src/a.py'', ''missing.py'', ''locked.py''] True)))
              = pre @ [banner, ''Looks fine.'', footer]
            \<and> banner \<notin> set pre \<and> footer \<notin> set pre)"
proof -
  let ?a = "args_of [''src/a.py'', ''missing.py'', ''locked.py''] True"
  have key: "environ w_ok API_KEY_ENV_VAR = Some ''sk-1''" "''sk-1'' \<noteq> []"
    by (simp_all add: w_ok_def world_with_def API_KEY_ENV_VAR_def)
  have cl: "Anthropic w_ok ''sk-1'' = Inr (Client ''sk-1'')"
    by (simp add: w_ok_def world_with_def)
  have fw: "fs w_ok (CODEWAY_PROMPT_FILENAME w_ok) = Content ''Be kind.''"
    unfolding w_ok_def prompt_of_world_with by (simp add: world_with_def)
  have rd: "\<exists>p\<in>set (files ?a). readable w_ok p"
    by (simp add: args_of_def readable_def w_ok_def world_with_def)
  have call: "snd (call_claude_api w_ok (Client ''sk-1'') (model ?a) (max_tokens ?a) (Some ''Be kind.'')
                     (user_prompt_of w_ok (files ?a))) = Some ''Looks fine.''"
    by (simp add: call_claude_api_def w_ok_def world_with_def response_text_def msg_of_def
        first_text_block_def text_block_def Let_def)
  show ?thesis
    using readable_file_gives_one_response_block [OF key cl fw rd call] by simp
qed

subsection \<open>The remote call\<close>

lemma call_returned:
  assumes "messages_create w cl (request_of mdl mt sp up) = Returned msg" and "sp \<noteq> []"
  shows "call_claude_api w cl mdl mt (Some sp) up =
           ([Stdout (sending_line mdl), ApiRequest cl (request_of mdl mt sp up)] @ fst (response_text msg),
            snd (response_text msg))"
  using assms by (simp add: call_claude_api_def request_of_def sending_line_def split_beta Let_def)

lemma call_status_error:
  assumes "messages_create w cl (request_of mdl mt sp up) = Raised (APIStatusError r)" and "sp \<noteq> []"
  shows "call_claude_api w cl mdl mt (Some sp) up =
           ([Stdout (sending_line mdl), ApiRequest cl (request_of mdl mt sp up)] @ status_error_report w r,
            None)"
  using assms by (simp add: call_claude_api_def request_of_def sending_line_def split_beta Let_def)

lemma run_returned:
  assumes "messages_create w cl (run_request w a sp) = Returned msg" and "sp \<noteq> []"
  shows "call_claude_api w cl (model a) (max_tokens a) (Some sp) (user_prompt_of w (files a)) =
           ([Stdout (sending_line (model a)), ApiRequest cl (run_request w a sp)] @ fst (response_text msg),
            snd (response_text msg))"
  using assms unfolding run_request_def by (rule call_returned)

lemma run_status_error:
  assumes "messages_create w cl (run_request w a sp) = Raised (APIStatusError r)" and "sp \<noteq> []"
  shows "call_claude_api w cl (model a) (max_tokens a) (Some sp) (user_prompt_of w (files a)) =
           ([Stdout (sending_line (model a)), ApiRequest cl (run_request w a sp)] @ status_error_report w r,
            None)"
  using assms unfolding run_request_def by (rule call_status_error)

lemma main_exit_code:
  assumes key: "environ w API_KEY_ENV_VAR = Some k" "k \<noteq> []"
    and cl: "Anthropic w k = Inr cl"
    and fw: "fs w (CODEWAY_PROMPT_FILENAME w) = Content sp"
    and rd: "\<exists>p\<in>set (files a). readable w p"
  shows "snd (main w a) =
           snd (render (snd (call_claude_api w cl (model a) (max_tokens a) (Some sp) (user_prompt_of w (files a)))))"
    and "stdout_of (fst (main w a)) =
           progress_lines w a sp
           @ stdout_of (fst (render (snd (call_claude_api w cl (model a) (max_tokens a) (Some sp)
                                            (user_prompt_of w (files a))))))"
proof -
  have ne: "readable_files w (files a) \<noteq> []"
    using rd by (simp add: readable_files_empty)
  show "snd (main w a) =
           snd (render (snd (call_claude_api w cl (model a) (max_tokens a) (Some sp) (user_prompt_of w (files a)))))"
    by (simp add: main_reaches_call [OF key cl fw ne])
  show "stdout_of (fst (main w a)) =
           progress_lines w a sp
           @ stdout_of (fst (render (snd (call_claude_api w cl (model a) (max_tokens a) (Some sp)
                                            (user_prompt_of w (files a))))))"
    by (rule main_stdout [OF key cl fw ne])
qed

lemma no_text_find: "\<forall>b\<in>set bs. block_type b \<noteq> ''text'' \<Longrightarrow> first_text_block bs = None"
  by (induction bs) (auto simp: first_text_block_def)

lemma response_text_no_text:
  assumes "msg_content msg = ContentList bs" and "\<forall>b\<in>set bs. block_type b \<noteq> ''text''"
  shows "response_text msg =
           (if bs \<noteq> [] then ([Stderr no_text_warning], Some [])
            else case msg_text msg of
                   TextIs t \<Rightarrow> ([], Some t)
                 | TextIsNone \<Rightarrow> ([], None)
                 | NoTextAttribute \<Rightarrow> (map Stderr (unexpected_structure msg), Some []))"
proof (cases bs)
  case Nil
  then show ?thesis
    using assms(1) by (simp add: response_text_def unexpected_structure_def split: text_attribute.splits)
next
  case (Cons b rest)
  have "first_text_block (b # rest) = None"
    using assms(2) Cons by (simp add: no_text_find)
  then show ?thesis
    using assms(1) Cons by (simp add: response_text_def)
qed

lemma stderr_of_map_Stderr [simp]: "stderr_of (map Stderr xs) = xs"
  by (induction xs) auto

text \<open>
  C7, as the code has it. Take a response whose content is a list without a text-typed
  block. When the list is not empty, the remote-call operation sends the one request,
  warns that no text content was found and returns the empty text, not the failure
  signal; the run prints a response block and exits with status 0. An empty list does
  not pass the test \<^verbatim>\<open>if message.content and ...\<close>, and the operation falls back to
  the response's own \<^verbatim>\<open>text\<close> attribute: without the attribute it warns of an
  unexpected structure and returns the empty text (status 0); a string held by the
  attribute is returned as it is, without a warning (status 0); and \<^verbatim>\<open>None\<close> held by
  the attribute is returned as it is, which is the failure signal, so that the run
  prints no response block and exits with status 1. Rendering keeps the empty text apart
  from the failure signal: a response block and status 0 for the first, status 1 for the
  second.
\<close>

theorem no_text_block_outcomes:
  assumes key: "environ w API_KEY_ENV_VAR = Some k" "k \<noteq> []"
    and cl: "Anthropic w k = Inr cl"
    and fw: "fs w (CODEWAY_PROMPT_FILENAME w) = Content sp" "sp \<noteq> []"
    and rd: "\<exists>p\<in>set (files a). readable w p"
    and content: "msg_content msg = ContentList bs"
    and notext: "\<forall>b\<in>set bs. block_type b \<noteq> ''text''"
  shows "(\<forall>mdl mt up. messages_create w cl (request_of mdl mt sp up) = Returned msg \<longrightarrow>
            (\<exists>tr res. call_claude_api w cl mdl mt (Some sp) up = (tr, res)
              \<and> api_requests tr = [request_of mdl mt sp up]
              \<and> (bs \<noteq> [] \<longrightarrow> res = Some [] \<and> stderr_of tr = [no_text_warning])
              \<and> (bs = [] \<and> msg_text msg = NoTextAttribute \<longrightarrow>
                    res = Some [] \<and> stderr_of tr = unexpected_structure msg)
              \<and> (\<forall>t. bs = [] \<and> msg_text msg = TextIs t \<longrightarrow> res = Some t \<and> stderr_of tr = [])
              \<and> (bs = [] \<and> msg_text msg = TextIsNone \<longrightarrow> res = None \<and> stderr_of tr = [])))
         \<and> (messages_create w cl (run_request w a sp) = Returned msg \<longrightarrow>
              (bs \<noteq> [] \<or> msg_text msg \<noteq> TextIsNone \<longrightarrow>
                 snd (main w a) = 0
                 \<and> (\<exists>txt. stdout_of (fst (main w a)) = progress_lines w a sp @ [banner, txt, footer]))
              \<and> (bs = [] \<and> msg_text msg = TextIsNone \<longrightarrow>
                 snd (main w a) = 1 \<and> stdout_of (fst (main w a)) = progress_lines w a sp))
         \<and> render (Some []) = ([Stdout banner, Stdout [], Stdout footer], 0)
         \<and> snd (render None) = 1"
proof -
  note rt = response_text_no_text [OF content notext]
  have 1: "\<forall>mdl mt up. messages_create w cl (request_of mdl mt sp up) = Returned msg \<longrightarrow>
            (\<exists>tr res. call_claude_api w cl mdl mt (Some sp) up = (tr, res)
              \<and> api_requests tr = [request_of mdl mt sp up]
              \<and> (bs \<noteq> [] \<longrightarrow> res = Some [] \<and> stderr_of tr = [no_text_warning])
              \<and> (bs = [] \<and> msg_text msg = NoTextAttribute \<longrightarrow>
                    res = Some [] \<and> stderr_of tr = unexpected_structure msg)
              \<and> (\<forall>t. bs = [] \<and> msg_text msg = TextIs t \<longrightarrow> res = Some t \<and> stderr_of tr = [])
              \<and> (bs = [] \<and> msg_text msg = TextIsNone \<longrightarrow> res = None \<and> stderr_of tr = []))"
    using fw(2)
    by (auto simp: call_returned rt unexpected_structure_def split: text_attribute.splits)
  have 2: "messages_create w cl (run_request w a sp) = Returned msg \<longrightarrow>
              (bs \<noteq> [] \<or> msg_text msg \<noteq> TextIsNone \<longrightarrow>
                 snd (main w a) = 0
                 \<and> (\<exists>txt. stdout_of (fst (main w a)) = progress_lines w a sp @ [banner, txt, footer]))
              \<and> (bs = [] \<and> msg_text msg = TextIsNone \<longrightarrow>
                 snd (main w a) = 1 \<and> stdout_of (fst (main w a)) = progress_lines w a sp)"
    using fw(2)
    by (auto simp: main_exit_code [OF key cl fw(1) rd] run_returned rt render_def
        split: text_attribute.splits)
  have 3: "render (Some []) = ([Stdout banner, Stdout [], Stdout footer], 0) \<and> snd (render None) = 1"
    by (simp add: render_def)
  show ?thesis
    using 1 2 3 by blast
qed

lemma world_with_key: "environ (world_with r) API_KEY_ENV_VAR = Some ''sk-1''" "''sk-1'' \<noteq> []"
  by (simp_all add: world_with_def API_KEY_ENV_VAR_def)

lemma world_with_client: "Anthropic (world_with r) ''sk-1'' = Inr (Client ''sk-1'')"
  by (simp add: world_with_def)

lemma world_with_framework:
  "fs (world_with r) (CODEWAY_PROMPT_FILENAME (world_with r)) = Content ''Be kind.''" "''Be kind.'' \<noteq> []"
  unfolding prompt_of_world_with by (simp_all add: world_with_def)

lemma world_with_readable: "\<exists>p\<in>set (files (args_of (''src/a.py'' # ps) v)). readable (world_with r) p"
  by (simp add: args_of_def readable_def world_with_def)

lemma world_with_api: "messages_create (world_with r) c q = r"
  by (simp add: world_with_def)

theorem no_text_block_outcomes_witness:
  "snd (main w_tool (args_of [''src/a.py'', ''missing.py''] False)) = 0
   \<and> (\<exists>tr. call_claude_api w_tool (Client ''sk-1'') DEFAULT_MODEL 4000 (Some ''Be kind.'') ''analyse'' = (tr, Some [])
            \<and> stderr_of tr = [no_text_warning])
   \<and> (\<exists>tr. call_claude_api w_void (Client ''sk-1'') DEFAULT_MODEL 4000 (Some ''Be kind.'') ''analyse'' = (tr, Some [])
            \<and> stderr_of tr = unexpected_structure (msg_of [] NoTextAttribute))
   \<and> (\<exists>tr. call_claude_api w_bare (Client ''sk-1'') DEFAULT_MODEL 4000 (Some ''Be kind.'') ''analyse''
               = (tr, Some ''Plain answer'')
            \<and> stderr_of tr = [])
   \<and> (\<exists>tr. call_claude_api w_none (Client ''sk-1'') DEFAULT_MODEL 4000 (Some ''Be kind.'') ''analyse'' = (tr, None)
            \<and> stderr_of tr = [])
   \<and> snd (main w_none (args_of [''src/a.py'', ''missing.py''] False)) = 1"
proof -
  let ?a = "args_of [''src/a.py'', ''missing.py''] False"
  have t: "msg_content (msg_of [tool_block] NoTextAttribute) = ContentList [tool_block]"
          "\<forall>b\<in>set [tool_block]. block_type b \<noteq> ''text''"
    by (simp_all add: msg_of_def tool_block_def)
  have v: "msg_content (msg_of [] NoTextAttribute) = ContentList []"
          "msg_text (msg_of [] NoTextAttribute) = NoTextAttribute"
          "msg_content (msg_of [] (TextIs ''Plain answer'')) = ContentList []"
          "msg_text (msg_of [] (TextIs ''Plain answer'')) = TextIs ''Plain answer''"
          "\<forall>b\<in>set ([] :: content_block list). block_type b \<noteq> ''text''"
          "msg_content (msg_of [] TextIsNone) = ContentList []"
          "msg_text (msg_of [] TextIsNone) = TextIsNone"
    by (simp_all add: msg_of_def)
  note a = no_text_block_outcomes
             [where w = "world_with (Returned (msg_of [tool_block] NoTextAttribute))"
                and a = "args_of [''src/a.py'', ''missing.py''] False",
              OF world_with_key world_with_client world_with_framework world_with_readable t,
              folded w_tool_def]
  note b = no_text_block_outcomes
             [where w = "world_with (Returned (msg_of [] NoTextAttribute))"
                and a = "args_of [''src/a.py'', ''missing.py''] False",
              OF world_with_key world_with_client world_with_framework world_with_readable v(1) v(5),
              folded w_void_def]
  note c = no_text_block_outcomes
             [where w = "world_with (Returned (msg_of [] (TextIs ''Plain answer'')))"
                and a = "args_of [''src/a.py'', ''missing.py''] False",
              OF world_with_key world_with_client world_with_framework world_with_readable v(3) v(5),
              folded w_bare_def]
  note d = no_text_block_outcomes
             [where w = "world_with (Returned (msg_of [] TextIsNone))"
                and a = "args_of [''src/a.py'', ''missing.py''] False",
              OF world_with_key world_with_client world_with_framework world_with_readable v(6) v(5),
              folded w_none_def]
  have 1: "snd (main w_tool ?a) = 0"
    using a world_with_api [of "Returned (msg_of [tool_block] NoTextAttribute)", folded w_tool_def] by simp
  have 2: "\<exists>tr. call_claude_api w_tool (Client ''sk-1'') DEFAULT_MODEL 4000 (Some ''Be kind.'') ''analyse'' = (tr, Some [])
            \<and> stderr_of tr = [no_text_warning]"
    using a [THEN conjunct1, rule_format, of DEFAULT_MODEL 4000 "''analyse''"]
      world_with_api [of "Returned (msg_of [tool_block] NoTextAttribute)", folded w_tool_def] by auto
  have 3: "\<exists>tr. call_claude_api w_void (Client ''sk-1'') DEFAULT_MODEL 4000 (Some ''Be kind.'') ''analyse'' = (tr, Some [])
            \<and> stderr_of tr = unexpected_structure (msg_of [] NoTextAttribute)"
    using b [THEN conjunct1, rule_format, of DEFAULT_MODEL 4000 "''analyse''"] v(2)
      world_with_api [of "Returned (msg_of [] NoTextAttribute)", folded w_void_def] by auto
  have 4: "\<exists>tr. call_claude_api w_bare (Client ''sk-1'') DEFAULT_MODEL 4000 (Some ''Be kind.'') ''analyse''
               = (tr, Some ''Plain answer'') \<and> stderr_of tr = []"
    using c [THEN conjunct1, rule_format, of DEFAULT_MODEL 4000 "''analyse''"] v(4)
      world_with_api [of "Returned (msg_of [] (TextIs ''Plain answer''))", folded w_bare_def] by auto
  have 5: "\<exists>tr. call_claude_api w_none (Client ''sk-1'') DEFAULT_MODEL 4000 (Some ''Be kind.'') ''analyse'' = (tr, None)
            \<and> stderr_of tr = []"
    using d [THEN conjunct1, rule_format, of DEFAULT_MODEL 4000 "''analyse''"] v(7)
      world_with_api [of "Returned (msg_of [] TextIsNone)", folded w_none_def] by auto
  have 6: "snd (main w_none ?a) = 1"
    using d v(7) world_with_api [of "Returned (msg_of [] TextIsNone)", folded w_none_def] by simp
  show ?thesis
    using 1 2 3 4 5 6 by blast
qed

text \<open>
  C7 as stated (every list without a text-typed block gives a warning and the empty text,
  not the failure signal) fails on the empty list when the response has a \<^verbatim>\<open>text\<close>
  attribute. If the attribute holds a string, that string is returned and nothing is
  written to the error stream; if it holds \<^verbatim>\<open>None\<close>, the failure signal is returned.
\<close>

theorem empty_list_fallback_counterexample:
  "msg_content (msg_of [] (TextIs ''Plain answer'')) = ContentList []
   \<and> snd (call_claude_api w_bare (Client ''sk-1'') DEFAULT_MODEL 4000 (Some ''Be kind.'') ''analyse'')
       = Some ''Plain answer''
   \<and> stderr_of (fst (call_claude_api w_bare (Client ''sk-1'') DEFAULT_MODEL 4000 (Some ''Be kind.'') ''analyse'')) = []
   \<and> msg_content (msg_of [] TextIsNone) = ContentList []
   \<and> snd (call_claude_api w_none (Client ''sk-1'') DEFAULT_MODEL 4000 (Some ''Be kind.'') ''analyse'') = None
   \<and> stderr_of (fst (call_claude_api w_none (Client ''sk-1'') DEFAULT_MODEL 4000 (Some ''Be kind.'') ''analyse'')) = []"
  by (simp add: call_claude_api_def w_bare_def w_none_def world_with_def msg_of_def response_text_def Let_def)

lemma find_single:
  "filter P xs = [x] \<Longrightarrow> find P xs = Some x"
  by (induction xs) (auto split: if_splits)

lemma response_text_first:
  assumes "msg_content msg = ContentList bs" and "first_text_block bs = Some t"
  shows "snd (response_text msg) = Some t"
proof (cases bs)
  case Nil
  then show ?thesis using assms(2) by (simp add: first_text_block_def)
next
  case (Cons b rest)
  then show ?thesis using assms by (simp add: response_text_def)
qed

text \<open>
  C8. When the content list of the response holds exactly one text-typed block (among any
  number of other blocks), the remote-call operation returns that block's text and the
  line printed between the banner and the closing line is that text, unchanged.
\<close>

theorem single_text_block_printed_verbatim:
  assumes key: "environ w API_KEY_ENV_VAR = Some k" "k \<noteq> []"
    and cl: "Anthropic w k = Inr cl"
    and fw: "fs w (CODEWAY_PROMPT_FILENAME w) = Content sp" "sp \<noteq> []"
    and rd: "\<exists>p\<in>set (files a). readable w p"
    and api: "messages_create w cl (run_request w a sp) = Returned msg"
    and content: "msg_content msg = ContentList bs"
    and single: "filter (\<lambda>block. block_type block = ''text'') bs = [b]"
  shows "snd (call_claude_api w cl (model a) (max_tokens a) (Some sp) (user_prompt_of w (files a)))
           = Some (block_text b)
         \<and> snd (main w a) = 0
         \<and> stdout_of (fst (main w a)) = progress_lines w a sp @ [banner, block_text b, footer]"
proof -
  have f: "first_text_block bs = Some (block_text b)"
    using find_single [OF single] by (simp add: first_text_block_def)
  have r: "snd (call_claude_api w cl (model a) (max_tokens a) (Some sp) (user_prompt_of w (files a)))
             = Some (block_text b)"
    by (simp add: run_returned [OF api fw(2)] response_text_first [OF content f])
  show ?thesis
    by (simp add: r main_exit_code [OF key cl fw(1) rd] render_def)
qed

theorem single_text_block_printed_verbatim_witness:
  "snd (main w_mixed (args_of [''src/a.py'', ''b.py''] False)) = 0
   \<and> stdout_of (fst (main w_mixed (args_of [''src/a.py'', ''b.py''] False)))
       = progress_lines w_mixed (args_of [''src/a.py'', ''b.py''] False) ''Be kind.''
         @ [banner, ''Second opinion.'', footer]"
proof -
  have c: "msg_content (msg_of [tool_block, text_block ''Second opinion.'', tool_block] NoTextAttribute)
             = ContentList [tool_block, text_block ''Second opinion.'', tool_block]"
    by (simp add: msg_of_def)
  have s: "filter (\<lambda>block. block_type block = ''text'') [tool_block, text_block ''Second opinion.'', tool_block]
             = [text_block ''Second opinion.'']"
    by (simp add: tool_block_def text_block_def)
  note a = single_text_block_printed_verbatim
             [where w = "world_with (Returned (msg_of [tool_block, text_block ''Second opinion.'', tool_block] NoTextAttribute))"
                and a = "args_of [''src/a.py'', ''b.py''] False",
              OF world_with_key world_with_client world_with_framework world_with_readable
                 world_with_api c s, folded w_mixed_def]
  show ?thesis
    using a by (simp add: text_block_def)
qed

lemma stderr_status_error_report:
  "stderr_of (status_error_report w r) =
     status_line r #
     (if status_code r = 401 then [hint_unauthorized]
      else if status_code r = 429 then [hint_rate_limit]
      else if status_code r = 400
           then (if overflow_wording w (str_response r) then [hint_context_window] else [hint_bad_request])
      else [])"
  by (simp add: status_error_report_def status_line_def overflow_wording_def hint_unauthorized_def
      hint_rate_limit_def hint_context_window_def hint_bad_request_def Let_def)

text \<open>
  What holds of every status error: the status line with the numeric status, the failure
  signal, exit status 1 after the failure notice and no response block; the credential
  hint for 401 and the rate-limit hint for 429. For 400 the hint depends on
  \<open>str_response\<close> alone, that is on the status code and the reason phrase: the body
  with the detail of the error is never looked at.
\<close>

lemma status_error_outcome:
  assumes key: "environ w API_KEY_ENV_VAR = Some k" "k \<noteq> []"
    and cl: "Anthropic w k = Inr cl"
    and fw: "fs w (CODEWAY_PROMPT_FILENAME w) = Content sp" "sp \<noteq> []"
    and rd: "\<exists>p\<in>set (files a). readable w p"
    and api: "messages_create w cl (run_request w a sp) = Raised (APIStatusError r)"
  shows "snd (call_claude_api w cl (model a) (max_tokens a) (Some sp) (user_prompt_of w (files a))) = None"
    and "stderr_of (fst (call_claude_api w cl (model a) (max_tokens a) (Some sp) (user_prompt_of w (files a))))
           = stderr_of (status_error_report w r)"
    and "snd (main w a) = 1"
    and "banner \<notin> set (stdout_of (fst (main w a)))"
    and "last (stderr_of (fst (main w a))) = failure_notice"
proof -
  note c = run_status_error [OF api fw(2)]
  have ne: "readable_files w (files a) \<noteq> []"
    using rd by (simp add: readable_files_empty)
  show "snd (call_claude_api w cl (model a) (max_tokens a) (Some sp) (user_prompt_of w (files a))) = None"
    by (simp add: c)
  show "stderr_of (fst (call_claude_api w cl (model a) (max_tokens a) (Some sp) (user_prompt_of w (files a))))
           = stderr_of (status_error_report w r)"
    by (simp add: c)
  show "snd (main w a) = 1"
    by (simp add: main_exit_code(1) [OF key cl fw(1) rd] c render_def)
  show "banner \<notin> set (stdout_of (fst (main w a)))"
    using banner_not_in_progress(1) [of w a sp]
    by (simp add: main_exit_code(2) [OF key cl fw(1) rd] c render_def)
  show "last (stderr_of (fst (main w a))) = failure_notice"
    by (simp add: main_reaches_call [OF key cl fw(1) ne] c render_def failure_notice_def)
qed

lemma status_hints:
  "status_code r = 401 \<Longrightarrow> stderr_of (status_error_report w r) = [status_line r, hint_unauthorized]"
  "status_code r = 429 \<Longrightarrow> stderr_of (status_error_report w r) = [status_line r, hint_rate_limit]"
  "status_code r = 400 \<Longrightarrow> stderr_of (status_error_report w r) =
     [status_line r, if overflow_wording w (str_response r) then hint_context_window else hint_bad_request]"
  by (simp_all add: stderr_status_error_report)

lemma overflow_example:
  "overflow_wording w_400 overflow_detail"
  "\<not> overflow_wording w_400 (str_response (http_error 400 ''Bad Request'' overflow_detail))"
  "show_int 400 = ''400''"
  "str_response (http_error 400 ''Bad Request'' overflow_detail) = ''<Response [400 Bad Request]>''"
  by code_simp+

text \<open>
  C9 at a 400 response whose body, the detail of the error, says
  \<^verbatim>\<open>context_length_exceeded\<close>: the status line is written, the failure signal is
  returned and the run exits with status 1, but the hint is the one for malformed input.
  The handler looks for the wording in \<^verbatim>\<open>str(e.response)\<close>, which is
  \<^verbatim>\<open><Response [400 Bad Request]>\<close> and holds nothing of the detail.
\<close>

theorem overflow_detail_gets_bad_request_hint:
  "status_code (http_error 400 ''Bad Request'' overflow_detail) = 400
   \<and> overflow_wording w_400 (body (http_error 400 ''Bad Request'' overflow_detail))
   \<and> call_claude_api w_400 (Client ''sk-1'') DEFAULT_MODEL 4000 (Some ''Be kind.'') ''analyse'' =
        ([Stdout (sending_line DEFAULT_MODEL),
          ApiRequest (Client ''sk-1'') (request_of DEFAULT_MODEL 4000 ''Be kind.'' ''analyse''),
          Stderr (warn @ '' API Status Error: 400 - <Response [400 Bad Request]>''),
          Stderr hint_bad_request], None)
   \<and> snd (main w_400 (args_of [''src/a.py''] False)) = 1"
proof -
  let ?r = "http_error 400 ''Bad Request'' overflow_detail"
  have api: "\<And>q. messages_create w_400 (Client ''sk-1'') q = Raised (APIStatusError ?r)"
    by (simp add: w_400_def world_with_def)
  have s: "status_code ?r = 400" "body ?r = overflow_detail"
    by (simp_all add: http_error_def)
  have rep: "status_error_report w_400 ?r =
               [Stderr (warn @ '' API Status Error: 400 - <Response [400 Bad Request]>''), Stderr hint_bad_request]"
    using overflow_example(2)
    by (simp add: status_error_report_def s(1) overflow_wording_def Let_def hint_bad_request_def
        overflow_example(3,4))
  have c: "call_claude_api w_400 (Client ''sk-1'') DEFAULT_MODEL 4000 (Some ''Be kind.'') ''analyse'' =
        ([Stdout (sending_line DEFAULT_MODEL),
          ApiRequest (Client ''sk-1'') (request_of DEFAULT_MODEL 4000 ''Be kind.'' ''analyse''),
          Stderr (warn @ '' API Status Error: 400 - <Response [400 Bad Request]>''),
          Stderr hint_bad_request], None)"
    using call_status_error [OF api, of "''Be kind.''" DEFAULT_MODEL 4000 "''analyse''"] by (simp add: rep)
  have m: "snd (main w_400 (args_of [''src/a.py''] False)) = 1"
    using status_error_outcome(3)
            [where w = "world_with (Raised (APIStatusError (http_error 400 ''Bad Request'' overflow_detail)))"
               and a = "args_of [''src/a.py''] False",
             OF world_with_key world_with_client world_with_framework world_with_readable world_with_api]
    by (simp add: w_400_def)
  show ?thesis
    using s overflow_example(1) c m by simp
qed

lemma first_empty_text:
  assumes i: "i < length bs" "block_type (bs ! i) = ''text''" "block_text (bs ! i) = []"
    and before: "\<forall>j<i. block_type (bs ! j) = ''text'' \<longrightarrow> block_text (bs ! j) = []"
  shows "first_text_block bs = Some []"
proof (cases "find (\<lambda>block. block_type block = ''text'') bs")
  case None
  then have "\<not> block_type (bs ! i) = ''text''"
    using i(1) by (simp add: find_None_iff)
  then show ?thesis using i(2) by simp
next
  case (Some x)
  then obtain m where m: "m < length bs" "block_type (bs ! m) = ''text''" "x = bs ! m"
      "\<forall>j<m. \<not> block_type (bs ! j) = ''text''"
    by (auto simp: find_Some_iff)
  have "\<not> i < m"
    using m(4) i(2) by blast
  then have "m < i \<or> m = i" by arith
  then have "block_text x = []"
    using before m(2,3) i(3) by auto
  then show ?thesis
    by (simp add: first_text_block_def Some)
qed

lemma response_text_empty_first:
  assumes "msg_content msg = ContentList bs" and "first_text_block bs = Some []"
  shows "response_text msg = ([Stderr no_text_warning], Some [])"
proof (cases bs)
  case Nil
  then show ?thesis using assms(2) by (simp add: first_text_block_def)
next
  case (Cons b rest)
  then show ?thesis using assms by (simp add: response_text_def)
qed

text \<open>
  C10, as the code has it. When the first text-typed block of the content list has the
  empty text (some text-typed block is empty and no text-typed block before it is not),
  the remote-call operation warns that no text content was found and returns the empty
  text, not the failure signal; the run prints an empty response block and exits with
  status 0. The outcome is the one of every response whose content list is not empty and
  holds no text-typed block.
\<close>

theorem empty_text_block_warns_and_returns_empty:
  assumes key: "environ w API_KEY_ENV_VAR = Some k" "k \<noteq> []"
    and cl: "Anthropic w k = Inr cl"
    and fw: "fs w (CODEWAY_PROMPT_FILENAME w) = Content sp" "sp \<noteq> []"
    and rd: "\<exists>p\<in>set (files a). readable w p"
    and content: "msg_content msg = ContentList bs"
    and i: "i < length bs" "block_type (bs ! i) = ''text''" "block_text (bs ! i) = []"
    and before: "\<forall>j<i. block_type (bs ! j) = ''text'' \<longrightarrow> block_text (bs ! j) = []"
  shows "(\<forall>mdl mt up. messages_create w cl (request_of mdl mt sp up) = Returned msg \<longrightarrow>
            call_claude_api w cl mdl mt (Some sp) up =
              ([Stdout (sending_line mdl), ApiRequest cl (request_of mdl mt sp up), Stderr no_text_warning],
               Some []))
         \<and> (messages_create w cl (run_request w a sp) = Returned msg \<longrightarrow>
              snd (main w a) = 0
              \<and> stdout_of (fst (main w a)) = progress_lines w a sp @ [banner, [], footer])
         \<and> (\<forall>other blocks. msg_content other = ContentList blocks \<and> blocks \<noteq> []
                \<and> (\<forall>b\<in>set blocks. block_type b \<noteq> ''text'')
              \<longrightarrow> response_text other = response_text msg)"
proof -
  have f: "first_text_block bs = Some []"
    using i before by (rule first_empty_text)
  have t: "response_text msg = ([Stderr no_text_warning], Some [])"
    using content f by (rule response_text_empty_first)
  have 1: "\<forall>mdl mt up. messages_create w cl (request_of mdl mt sp up) = Returned msg \<longrightarrow>
            call_claude_api w cl mdl mt (Some sp) up =
              ([Stdout (sending_line mdl), ApiRequest cl (request_of mdl mt sp up), Stderr no_text_warning],
               Some [])"
    using fw(2) by (simp add: call_returned t)
  have 2: "messages_create w cl (run_request w a sp) = Returned msg \<longrightarrow>
              snd (main w a) = 0
              \<and> stdout_of (fst (main w a)) = progress_lines w a sp @ [banner, [], footer]"
    using fw(2) by (simp add: main_exit_code [OF key cl fw(1) rd] run_returned t render_def)
  have 3: "\<forall>other blocks. msg_content other = ContentList blocks \<and> blocks \<noteq> []
                \<and> (\<forall>b\<in>set blocks. block_type b \<noteq> ''text'')
              \<longrightarrow> response_text other = response_text msg"
    by (simp add: t response_text_no_text)
  show ?thesis
    using 1 2 3 by blast
qed

theorem empty_text_block_warns_and_returns_empty_witness:
  "call_claude_api w_hollow (Client ''sk-1'') DEFAULT_MODEL 4000 (Some ''Be kind.'') ''analyse'' =
      ([Stdout (sending_line DEFAULT_MODEL),
        ApiRequest (Client ''sk-1'') (request_of DEFAULT_MODEL 4000 ''Be kind.'' ''analyse''),
        Stderr no_text_warning], Some [])
   \<and> snd (main w_hollow (args_of [''src/a.py''] False)) = 0
   \<and> stdout_of (fst (main w_hollow (args_of [''src/a.py''] False)))
       = progress_lines w_hollow (args_of [''src/a.py''] False) ''Be kind.'' @ [banner, [], footer]
   \<and> response_text (msg_of [tool_block] NoTextAttribute)
       = response_text (msg_of [tool_block, text_block [], text_block ''later''] NoTextAttribute)"
proof -
  let ?bs = "[tool_block, text_block [], text_block ''later'']"
  have c: "msg_content (msg_of ?bs NoTextAttribute) = ContentList ?bs"
    by (simp add: msg_of_def)
  have i: "1 < length ?bs" "block_type (?bs ! 1) = ''text''" "block_text (?bs ! 1) = []"
    by (simp_all add: text_block_def)
  have before: "\<forall>j<1. block_type (?bs ! j) = ''text'' \<longrightarrow> block_text (?bs ! j) = []"
    by (simp add: tool_block_def)
  note a = empty_text_block_warns_and_returns_empty
             [where w = "world_with (Returned (msg_of [tool_block, text_block [], text_block ''later''] NoTextAttribute))"
                and a = "args_of [''src/a.py''] False",
              OF world_with_key world_with_client world_with_framework world_with_readable c i before,
              folded w_hollow_def]
  note api = world_with_api [of "Returned (msg_of [tool_block, text_block [], text_block ''later''] NoTextAttribute)",
               folded w_hollow_def]
  have o: "msg_content (msg_of [tool_block] NoTextAttribute) = ContentList [tool_block] \<and> [tool_block] \<noteq> []
           \<and> (\<forall>b\<in>set [tool_block]. block_type b \<noteq> ''text'')"
    by (simp add: msg_of_def tool_block_def)
  have 1: "call_claude_api w_hollow (Client ''sk-1'') DEFAULT_MODEL 4000 (Some ''Be kind.'') ''analyse'' =
      ([Stdout (sending_line DEFAULT_MODEL),
        ApiRequest (Client ''sk-1'') (request_of DEFAULT_MODEL 4000 ''Be kind.'' ''analyse''),
        Stderr no_text_warning], Some [])"
    using a [THEN conjunct1, rule_format, OF api] .
  have 2: "snd (main w_hollow (args_of [''src/a.py''] False)) = 0
   \<and> stdout_of (fst (main w_hollow (args_of [''src/a.py''] False)))
       = progress_lines w_hollow (args_of [''src/a.py''] False) ''Be kind.'' @ [banner, [], footer]"
    using a [THEN conjunct2, THEN conjunct1, rule_format, OF api] .
  have 3: "response_text (msg_of [tool_block] NoTextAttribute) = response_text (msg_of ?bs NoTextAttribute)"
    using a [THEN conjunct2, THEN conjunct2, rule_format, OF o] .
  show ?thesis
    using 1 2 3 by blast
qed

text \<open>
  C10 as stated compares with every response without a text block. A response whose
  content list is empty has no text block either, yet it is told apart from one with an
  empty text block: with a \<^verbatim>\<open>text\<close> attribute the remote-call operation returns
  that text and warns of nothing.
\<close>

theorem empty_text_block_distinguishable_counterexample:
  "first_text_block [text_block []] = Some []
   \<and> first_text_block [] = None
   \<and> call_claude_api w_silent (Client ''sk-1'') DEFAULT_MODEL 4000 (Some ''Be kind.'') ''analyse'' =
        ([Stdout (sending_line DEFAULT_MODEL),
          ApiRequest (Client ''sk-1'') (request_of DEFAULT_MODEL 4000 ''Be kind.'' ''analyse''),
          Stderr no_text_warning], Some [])
   \<and> call_claude_api w_bare (Client ''sk-1'') DEFAULT_MODEL 4000 (Some ''Be kind.'') ''analyse'' =
        ([Stdout (sending_line DEFAULT_MODEL),
          ApiRequest (Client ''sk-1'') (request_of DEFAULT_MODEL 4000 ''Be kind.'' ''analyse'')],
         Some ''Plain answer'')"
  by (simp add: call_claude_api_def w_silent_def w_bare_def world_with_def response_text_def msg_of_def
      first_text_block_def text_block_def request_of_def sending_line_def Let_def)

end
